theory Spec2Isabelle
  imports Complex_Main "HOL-Library.AList"
begin

section \<open>Group Order Splitter: the distribution calculators\<close>

text \<open>
  The content script (\<^verbatim>\<open>calculateDistribution\<close>, \<^verbatim>\<open>calculateAlternativeDistribution\<close>,
  \<^verbatim>\<open>validateOrderData\<close>, \<^verbatim>\<open>calculateAndDisplay\<close>) and the background script
  (\<^verbatim>\<open>calculateOrderDistribution\<close>) are embedded as HOL functions.

  Numbers. A JavaScript number that holds a finite value is modelled as an exact rational
  (\<^typ>\<open>rat\<close>): sums, products, \<^verbatim>\<open>Math.min\<close>, \<^verbatim>\<open>Math.max\<close> and comparisons are the
  rational ones, without the representation error of binary doubles. A division whose
  divisor is zero yields \<^verbatim>\<open>NaN\<close> or an infinity in JavaScript, which the code then
  carries on into its result; in the model such a division returns the error value
  \<open>NonFinite\<close> and the computation stops there. \<open>TypeError\<close> is the exception of a
  property read on \<^verbatim>\<open>undefined\<close>, and \<open>Error m\<close> is \<^verbatim>\<open>throw new Error(m)\<close>.

  Objects. A JavaScript object with string keys is an association list in the
  enumeration order of \<^verbatim>\<open>Object.keys\<close>; \<^verbatim>\<open>o[k] = v\<close> is \<^const>\<open>AList.update\<close> (it
  replaces the value of an existing key in place and appends a new key at the end), and
  \<^verbatim>\<open>o[k]\<close> is \<^const>\<open>map_of\<close>. The keys of an object are pairwise distinct.
\<close>

subsection \<open>Numbers\<close>

datatype error =
    NonFinite
  | TypeError
  | Error string

text \<open>\<^verbatim>\<open>a / b\<close>.\<close>

definition jsdiv :: "rat \<Rightarrow> rat \<Rightarrow> error + rat" where
  "jsdiv a b = (if b = 0 then Inl NonFinite else Inr (a / b))"

text \<open>
  \<^verbatim>\<open>parseFloat(x.toFixed(2))\<close>: \<^verbatim>\<open>toFixed\<close> picks the integer \<open>n\<close> with \<open>n / 100\<close> closest
  to \<open>x\<close>, the larger one on a tie, after taking the sign of a negative \<open>x\<close> out.
\<close>

definition toFixed2 :: "rat \<Rightarrow> rat" where
  "toFixed2 x =
     (if x < 0 then - (of_int \<lfloor>(- x) * 100 + 1 / 2\<rfloor> / 100)
      else of_int \<lfloor>x * 100 + 1 / 2\<rfloor> / 100)"

subsection \<open>Strings\<close>

text \<open>
  \<^verbatim>\<open>String.prototype.toLowerCase\<close> on the letters A to Z; every other character is left
  as it is (no character outside A to Z is lowered to a letter of the creator patterns).
\<close>

definition lowerChar :: "char \<Rightarrow> char" where
  "lowerChar c =
     (case map_of (zip ''ABCDEFGHIJKLMNOPQRSTUVWXYZ'' ''abcdefghijklmnopqrstuvwxyz'') c of
        Some l \<Rightarrow> l
      | None \<Rightarrow> c)"

definition toLowerCase :: "string \<Rightarrow> string" where
  "toLowerCase s = map lowerChar s"

fun startsWith :: "string \<Rightarrow> string \<Rightarrow> bool" where
  "startsWith s [] = True"
| "startsWith [] (p # ps) = False"
| "startsWith (c # cs) (p # ps) = (c = p \<and> startsWith cs ps)"

text \<open>\<^verbatim>\<open>s.includes(p)\<close>.\<close>

fun includesStr :: "string \<Rightarrow> string \<Rightarrow> bool" where
  "includesStr [] p = (p = [])"
| "includesStr (c # cs) p = (startsWith (c # cs) p \<or> includesStr cs p)"

subsection \<open>Data model\<close>

record 'n OrderData =
  people :: "(string \<times> 'n) list"
  delivery :: 'n
  service :: 'n
  discount :: 'n

text \<open>The \<^verbatim>\<open>dailyBudget\<close> property of a settings object.\<close>

datatype 'n jsbudget = Undefined | Null | Num 'n

record 'n Settings =
  dailyBudget :: "'n jsbudget"

datatype Status = Pays | Covered | HelpsOthers | Exact

record 'n ParticipantDetails =
  individualOrder :: 'n
  sharedCosts :: 'n
  totalCost :: 'n
  budgetUsage :: 'n
  extraBudget :: 'n
  overBudget :: 'n
  isOrderCreator :: bool

record 'n FinalPayment = "'n ParticipantDetails" +
  budgetHelpReceived :: 'n
  finalPayment :: 'n
  status :: Status

record 'n Breakdown =
  orderSubtotal :: 'n
  b_delivery :: 'n
  b_service :: 'n
  b_discount :: 'n
  grandTotal :: 'n
  totalBudget :: 'n
  sharedCostsTotal :: 'n
  sharedCostsPerPerson :: 'n
  totalExtraBudget :: 'n
  totalOverBudget :: 'n
  participantCount :: nat

record 'n DistributionResult =
  results :: "(string \<times> 'n FinalPayment) list"
  withinBudget :: bool
  orderCreator :: "string option"
  breakdown :: "'n Breakdown"

subsection \<open>The content script: \<^verbatim>\<open>calculateDistribution\<close>\<close>

text \<open>
  \<^verbatim>\<open>(settings.dailyBudget !== undefined && settings.dailyBudget !== null)
       ? settings.dailyBudget : 14\<close>
\<close>

definition budgetOf :: "rat Settings \<Rightarrow> rat" where
  "budgetOf settings =
     (case dailyBudget settings of Undefined \<Rightarrow> 14 | Null \<Rightarrow> 14 | Num b \<Rightarrow> b)"

definition orderCreatorPatterns :: "string list" where
  "orderCreatorPatterns = [''you'', ''yu'', ''me'', ''myself'']"

text \<open>The \<^verbatim>\<open>for ... of\<close> loop with its \<^verbatim>\<open>break\<close>.\<close>

fun identifyOrderCreator :: "string list \<Rightarrow> string option" where
  "identifyOrderCreator [] = None"
| "identifyOrderCreator (name # rest) =
     (if list_ex (\<lambda>pattern. includesStr (toLowerCase name) pattern) orderCreatorPatterns
      then Some name
      else identifyOrderCreator rest)"

text \<open>A \<^verbatim>\<open>forEach\<close> whose callback may fail stops at the first failure.\<close>

fun forEach :: "('a \<Rightarrow> 's \<Rightarrow> error + 's) \<Rightarrow> 'a list \<Rightarrow> 's \<Rightarrow> error + 's" where
  "forEach f [] s = Inr s"
| "forEach f (x # xs) s = (case f x s of Inl e \<Rightarrow> Inl e | Inr s' \<Rightarrow> forEach f xs s')"

text \<open>
  Step 1, the callback of the first \<^verbatim>\<open>participantNames.forEach\<close>. The state is
  \<open>(participantDetails, totalExtraBudget, totalOverBudget)\<close>. Reading \<^verbatim>\<open>people[name]\<close>
  of a missing key gives \<^verbatim>\<open>undefined\<close>, whose \<^verbatim>\<open>toFixed\<close> call throws.
\<close>

definition step1 ::
  "(string \<times> rat) list \<Rightarrow> rat \<Rightarrow> rat \<Rightarrow> string option \<Rightarrow> string \<Rightarrow>
   (string \<times> rat ParticipantDetails) list \<times> rat \<times> rat \<Rightarrow>
   error + (string \<times> rat ParticipantDetails) list \<times> rat \<times> rat" where
  "step1 ppl perPerson budget creator name s =
     (case s of (participantDetails, totalExtra, totalOver) \<Rightarrow>
      (case map_of ppl name of
         None \<Rightarrow> Inl TypeError
       | Some individualOrder' \<Rightarrow>
           let sharedCosts' = perPerson;
               totalCost' = individualOrder' + sharedCosts';
               budgetUsage' = min totalCost' budget;
               extraBudget' = max 0 (budget - totalCost');
               overBudget' = max 0 (totalCost' - budget)
           in Inr (AList.update name
                     \<lparr> individualOrder = toFixed2 individualOrder',
                       sharedCosts = toFixed2 sharedCosts',
                       totalCost = toFixed2 totalCost',
                       budgetUsage = toFixed2 budgetUsage',
                       extraBudget = toFixed2 extraBudget',
                       overBudget = toFixed2 overBudget',
                       isOrderCreator = (Some name = creator) \<rparr>
                     participantDetails,
                   (if extraBudget' > 0 then totalExtra + extraBudget' else totalExtra),
                   (if overBudget' > 0 then totalOver + overBudget' else totalOver))))"

text \<open>
  Step 2, the callback of the second \<^verbatim>\<open>participantNames.forEach\<close>; \<open>details\<close> is the
  entry that step 1 stored, with its rounded fields.
\<close>

definition step2 ::
  "(string \<times> rat ParticipantDetails) list \<Rightarrow> rat \<Rightarrow> rat \<Rightarrow> string \<Rightarrow>
   (string \<times> rat FinalPayment) list \<Rightarrow> error + (string \<times> rat FinalPayment) list" where
  "step2 participantDetails totalExtra totalOver name finalPayments =
     (case map_of participantDetails name of
        None \<Rightarrow> Inl TypeError
      | Some details \<Rightarrow>
          if overBudget details > 0 then
            (case (if totalOver > 0 then jsdiv (overBudget details) totalOver else Inr 0) of
               Inl e \<Rightarrow> Inl e
             | Inr proportionOfOverBudget \<Rightarrow>
                 let budgetHelpReceived' =
                       min (overBudget details) (totalExtra * proportionOfOverBudget);
                     finalPayment' = max 0 (overBudget details - budgetHelpReceived')
                 in Inr (AList.update name
                           (ParticipantDetails.extend details
                              (FinalPayment.fields
                                 (toFixed2 budgetHelpReceived')
                                 (toFixed2 finalPayment')
                                 (if finalPayment' > 0 then Pays else Covered)))
                           finalPayments))
          else
            Inr (AList.update name
                   (ParticipantDetails.extend details
                      (FinalPayment.fields 0 0
                         (if extraBudget details > 0 then HelpsOthers else Exact)))
                   finalPayments))"

definition calculateDistribution ::
  "rat OrderData \<Rightarrow> rat Settings \<Rightarrow> error + rat DistributionResult" where
  "calculateDistribution orderData settings =
     (let budget = budgetOf settings;
          participantNames = map fst (people orderData);
          orderSubtotal' = foldl (+) 0 (map snd (people orderData));
          grandTotal' = orderSubtotal' + delivery orderData + service orderData + discount orderData;
          totalCompanyBudget = budget * of_nat (length participantNames);
          orderCreator' = identifyOrderCreator participantNames;
          sharedCostsTotal' = delivery orderData + service orderData + discount orderData
      in case jsdiv sharedCostsTotal' (of_nat (length participantNames)) of
           Inl e \<Rightarrow> Inl e
         | Inr sharedCostsPerPerson' \<Rightarrow>
            (case forEach (step1 (people orderData) sharedCostsPerPerson' budget orderCreator')
                    participantNames ([], 0, 0) of
               Inl e \<Rightarrow> Inl e
             | Inr (participantDetails, totalExtraBudget', totalOverBudget') \<Rightarrow>
                (case forEach (step2 participantDetails totalExtraBudget' totalOverBudget')
                        participantNames [] of
                   Inl e \<Rightarrow> Inl e
                 | Inr finalPayments \<Rightarrow>
                     Inr \<lparr> results = finalPayments,
                           withinBudget = (grandTotal' \<le> totalCompanyBudget),
                           orderCreator = orderCreator',
                           breakdown =
                             \<lparr> orderSubtotal = orderSubtotal',
                               b_delivery = delivery orderData,
                               b_service = service orderData,
                               b_discount = discount orderData,
                               grandTotal = grandTotal',
                               totalBudget = totalCompanyBudget,
                               sharedCostsTotal = sharedCostsTotal',
                               sharedCostsPerPerson = sharedCostsPerPerson',
                               totalExtraBudget = totalExtraBudget',
                               totalOverBudget = totalOverBudget',
                               participantCount = length participantNames \<rparr> \<rparr>)))"

subsection \<open>The content script: \<^verbatim>\<open>calculateAlternativeDistribution\<close>\<close>

text \<open>
  The callback of \<^verbatim>\<open>participantNames.forEach\<close> in the branch for an order over budget;
  the callback in \<^verbatim>\<open>calculateOrderDistribution\<close> of the background script is the same
  code. \<^verbatim>\<open>people[name]\<close> of a missing key is \<^verbatim>\<open>undefined\<close>, and the sum with it is
  \<^verbatim>\<open>NaN\<close>.
\<close>

definition overageOf ::
  "(string \<times> rat) list \<Rightarrow> rat \<Rightarrow> rat \<Rightarrow> rat \<Rightarrow> rat \<Rightarrow> string \<Rightarrow>
   (string \<times> rat) list \<Rightarrow> error + (string \<times> rat) list" where
  "overageOf ppl extraPerPerson discount' orderSubtotal' budget name results' =
     (case map_of ppl name of
        None \<Rightarrow> Inl NonFinite
      | Some subtotal \<Rightarrow>
          (case (if discount' \<noteq> 0 \<and> orderSubtotal' > 0
                 then (case jsdiv subtotal orderSubtotal' of
                         Inl e \<Rightarrow> Inl e
                       | Inr ratio \<Rightarrow> Inr (subtotal + extraPerPerson + ratio * discount'))
                 else Inr (subtotal + extraPerPerson)) of
             Inl e \<Rightarrow> Inl e
           | Inr total' \<Rightarrow>
               let overage = max 0 (total' - budget)
               in Inr (AList.update name (toFixed2 overage) results')))"


subsection \<open>The background script: \<^verbatim>\<open>calculateOrderDistribution\<close>\<close>

record OwnerBreakdown =
  o_orderSubtotal :: rat
  o_delivery :: rat
  o_service :: rat
  o_discount :: rat
  o_grandTotal :: rat
  o_totalBudget :: rat
  extraForOwner :: rat
  o_participantCount :: nat

record OrderDistribution =
  o_results :: "(string \<times> rat) list"
  o_breakdown :: OwnerBreakdown

definition DEFAULT_dailyBudget :: rat where
  "DEFAULT_dailyBudget = 14"

text \<open>
  \<^verbatim>\<open>settings.dailyBudget || DEFAULT_SETTINGS.dailyBudget\<close>: the left operand is taken
  when it is truthy; \<^verbatim>\<open>undefined\<close>, \<^verbatim>\<open>null\<close> and \<^verbatim>\<open>0\<close> are falsy.
\<close>

definition backgroundBudgetOf :: "rat Settings \<Rightarrow> rat" where
  "backgroundBudgetOf settings =
     (case dailyBudget settings of
        Undefined \<Rightarrow> DEFAULT_dailyBudget
      | Null \<Rightarrow> DEFAULT_dailyBudget
      | Num b \<Rightarrow> if b = 0 then DEFAULT_dailyBudget else b)"

definition calculateOrderDistribution ::
  "rat OrderData \<Rightarrow> rat Settings \<Rightarrow> error + OrderDistribution" where
  "calculateOrderDistribution orderData settings =
     (let budget = backgroundBudgetOf settings;
          extraFeesTotal = delivery orderData + service orderData;
          participantNames = map fst (people orderData)
      in case (if length participantNames > 0
               then jsdiv extraFeesTotal (of_nat (length participantNames))
               else Inr 0) of
           Inl e \<Rightarrow> Inl e
         | Inr extraPerPerson \<Rightarrow>
            (let orderSubtotal' = foldl (+) 0 (map snd (people orderData))
             in case forEach (overageOf (people orderData) extraPerPerson (discount orderData)
                                orderSubtotal' budget) participantNames [] of
                  Inl e \<Rightarrow> Inl e
                | Inr results' \<Rightarrow>
                    let grandTotal' = orderSubtotal' + extraFeesTotal + discount orderData;
                        totalBudget' = budget * of_nat (length participantNames);
                        extraForOwner' = max 0 (grandTotal' - totalBudget');
                        results'' = (if extraForOwner' > 0
                                     then AList.update ''You (Order Owner)'' (toFixed2 extraForOwner') results'
                                     else results')
                    in Inr \<lparr> o_results = results'',
                             o_breakdown =
                               \<lparr> o_orderSubtotal = orderSubtotal',
                                 o_delivery = delivery orderData,
                                 o_service = service orderData,
                                 o_discount = discount orderData,
                                 o_grandTotal = grandTotal',
                                 o_totalBudget = totalBudget',
                                 extraForOwner = extraForOwner',
                                 o_participantCount = length participantNames \<rparr> \<rparr>))"

subsection \<open>The content script: validation of the parsed order\<close>

text \<open>
  What the page parsers hand over is untyped. A value is \<^verbatim>\<open>undefined\<close>, a finite number,
  \<^verbatim>\<open>NaN\<close>, an infinity, or a value whose \<^verbatim>\<open>typeof\<close> is not \<^verbatim>\<open>'number'\<close>.
\<close>

datatype jsval = JUndefined | JNumber rat | JNaN | JInfinity | JNegInfinity | JOther

record RawOrderData =
  r_people :: "(string \<times> jsval) list option"
  r_delivery :: jsval
  r_service :: jsval
  r_discount :: jsval

definition typeofNumber :: "jsval \<Rightarrow> bool" where
  "typeofNumber v = (case v of JUndefined \<Rightarrow> False | JOther \<Rightarrow> False | _ \<Rightarrow> True)"

definition jsLess :: "jsval \<Rightarrow> rat \<Rightarrow> bool" where
  "jsLess v c = (case v of JNumber r \<Rightarrow> r < c | JNegInfinity \<Rightarrow> True | _ \<Rightarrow> False)"

definition jsGreater :: "jsval \<Rightarrow> rat \<Rightarrow> bool" where
  "jsGreater v c = (case v of JNumber r \<Rightarrow> r > c | JInfinity \<Rightarrow> True | _ \<Rightarrow> False)"

text \<open>The characters that \<^verbatim>\<open>trim\<close> removes, among the ASCII ones.\<close>

definition isWhitespace :: "char \<Rightarrow> bool" where
  "isWhitespace c = (c \<in> set [CHR '' '', CHR 0x09, CHR 0x0A, CHR 0x0B, CHR 0x0C, CHR 0x0D])"

text \<open>
  The \<^verbatim>\<open>for ... of Object.entries(orderData.people)\<close> loop. The messages end with the
  rendered amount in the source; the model keeps them up to the participant's name.
\<close>

fun validateParticipants :: "(string \<times> jsval) list \<Rightarrow> error + unit" where
  "validateParticipants [] = Inr ()"
| "validateParticipants ((name, amount) # rest) =
     (if name = [] \<or> list_all isWhitespace name then
        Inl (Error ''Invalid participant name detected'')
      else if \<not> typeofNumber amount \<or> amount = JNaN \<or> jsLess amount 0 then
        Inl (Error (''Invalid price data for participant '' @ [CHR 0x22] @ name @ [CHR 0x22]))
      else if jsGreater amount 1000 then
        Inl (Error (''Unusually high amount detected for '' @ [CHR 0x22] @ name @ [CHR 0x22]))
      else validateParticipants rest)"

text \<open>The \<^verbatim>\<open>fees.forEach\<close> loop over \<^verbatim>\<open>['delivery', 'service', 'discount']\<close>.\<close>

fun validateFees :: "(string \<times> jsval) list \<Rightarrow> error + unit" where
  "validateFees [] = Inr ()"
| "validateFees ((fee, v) # rest) =
     (if v \<noteq> JUndefined \<and> (\<not> typeofNumber v \<or> v = JNaN)
      then Inl (Error (''Invalid '' @ fee @ '' fee data''))
      else validateFees rest)"

definition validateOrderData :: "RawOrderData option \<Rightarrow> error + unit" where
  "validateOrderData orderData =
     (case orderData of
        None \<Rightarrow> Inl (Error ''Invalid order data structure'')
      | Some od \<Rightarrow>
         (case r_people od of
            None \<Rightarrow> Inl (Error ''No participants found in order data'')
          | Some ppl \<Rightarrow>
              let participantCount' = length ppl
              in if participantCount' = 0 then
                   Inl (Error ''No participants found in the order'')
                 else if participantCount' > 50 then
                   Inl (Error ''Too many participants detected (>50). This may indicate a parsing error.'')
                 else
                   (case validateParticipants ppl of
                      Inl e \<Rightarrow> Inl e
                    | Inr _ \<Rightarrow>
                        validateFees [(''delivery'', r_delivery od), (''service'', r_service od),
                                      (''discount'', r_discount od)])))"

subsection \<open>The content script: \<^verbatim>\<open>parseOrderData\<close> and \<^verbatim>\<open>calculateAndDisplay\<close>\<close>

text \<open>
  The page is what the DOM-reading collaborators report: the two tests of
  \<^verbatim>\<open>validatePageContext\<close>, the results of \<^verbatim>\<open>parseFromStructuredElements\<close> and
  \<^verbatim>\<open>parseFromText\<close> (\<open>None\<close> is \<^verbatim>\<open>null\<close>), and whether a rendering call throws.
\<close>

record Page =
  onThuisbezorgd :: bool
  hasOrderIndicators :: bool
  structuredElements :: "RawOrderData option"
  textParse :: "RawOrderData option"
  showLoadingThrows :: "error option"
  displayResultsThrows :: "error option"
  displayErrorThrows :: "error option"

definition messageOf :: "error \<Rightarrow> string" where
  "messageOf e = (case e of Error m \<Rightarrow> m | TypeError \<Rightarrow> ''TypeError'' | NonFinite \<Rightarrow> ''NonFinite'')"

definition validatePageContext :: "Page \<Rightarrow> error + unit" where
  "validatePageContext page =
     (if \<not> onThuisbezorgd page then
        Inl (Error ''This extension only works on Thuisbezorgd.nl pages'')
      else if \<not> hasOrderIndicators page then
        Inl (Error ''This does not appear to be a valid order page'')
      else Inr ())"

definition peopleCount :: "RawOrderData \<Rightarrow> nat" where
  "peopleCount od = (case r_people od of None \<Rightarrow> 0 | Some ppl \<Rightarrow> length ppl)"

text \<open>
  The two parsing strategies: the structured result, and the text result when the
  structured one is \<^verbatim>\<open>null\<close> or has no participants.
\<close>

definition parsedByStrategies :: "Page \<Rightarrow> RawOrderData option" where
  "parsedByStrategies page =
     (case structuredElements page of
        None \<Rightarrow> textParse page
      | Some od \<Rightarrow> if peopleCount od = 0 then textParse page else Some od)"

text \<open>The \<^verbatim>\<open>try\<close> block of \<^verbatim>\<open>parseOrderData\<close>.\<close>

definition parseOrderDataTry :: "Page \<Rightarrow> error + RawOrderData" where
  "parseOrderDataTry page =
     (case validatePageContext page of
        Inl e \<Rightarrow> Inl e
      | Inr _ \<Rightarrow>
          let orderData = parsedByStrategies page
          in case orderData of
               None \<Rightarrow> Inl (Error ''Unable to parse order data from page. Please ensure you are on a valid Thuisbezorgd order page.'')
             | Some od \<Rightarrow>
                 (case validateOrderData (Some od) of Inl e \<Rightarrow> Inl e | Inr _ \<Rightarrow> Inr od))"

text \<open>The \<^verbatim>\<open>catch\<close> block of \<^verbatim>\<open>parseOrderData\<close> rewrites the message.\<close>

definition parseOrderData :: "Page \<Rightarrow> error + RawOrderData" where
  "parseOrderData page =
     (case parseOrderDataTry page of
        Inr od \<Rightarrow> Inr od
      | Inl e \<Rightarrow>
          if includesStr (messageOf e) ''not a valid order page'' then
            Inl (Error ''This page does not appear to be a Thuisbezorgd order page. Please navigate to an order confirmation or food tracker page.'')
          else if includesStr (messageOf e) ''No participants found'' then
            Inl (Error ''No order participants detected. The order may still be loading or the page format has changed.'')
          else if includesStr (messageOf e) ''Invalid price data'' then
            Inl (Error ''Order prices could not be parsed correctly. Please refresh the page and try again.'')
          else
            Inl (Error (''Order parsing failed: '' @ messageOf e @ ''. Please refresh the page or contact support if the issue persists.'')))"

text \<open>
  The typed view of a parsed order. An amount or a fee that is not a finite number has no
  typed view; a calculation on it computes with \<^verbatim>\<open>NaN\<close> or an infinity.
\<close>

definition numberOf :: "jsval \<Rightarrow> rat option" where
  "numberOf v = (case v of JNumber r \<Rightarrow> Some r | _ \<Rightarrow> None)"

fun amountsOf :: "(string \<times> jsval) list \<Rightarrow> (string \<times> rat) list option" where
  "amountsOf [] = Some []"
| "amountsOf ((name, v) # rest) =
     (case numberOf v of
        None \<Rightarrow> None
      | Some r \<Rightarrow> (case amountsOf rest of None \<Rightarrow> None | Some rs \<Rightarrow> Some ((name, r) # rs)))"

definition toOrderData :: "RawOrderData \<Rightarrow> rat OrderData option" where
  "toOrderData od =
     (case (r_people od, numberOf (r_delivery od), numberOf (r_service od), numberOf (r_discount od)) of
        (Some ppl, Some d, Some s, Some c) \<Rightarrow>
          (case amountsOf ppl of
             None \<Rightarrow> None
           | Some ps \<Rightarrow> Some \<lparr> people = ps, delivery = d, service = s, discount = c \<rparr>)
      | _ \<Rightarrow> None)"

text \<open>What a calculation hands back: a result of finite numbers, or one that holds a
  \<^verbatim>\<open>NaN\<close> or an infinity.\<close>

datatype calcResults = Results "rat DistributionResult" | NonFiniteResults

datatype effect =
    ShowLoadingState
  | DisplayResults calcResults bool rat
  | SendLogError string
  | DisplayError string

datatype outcome = Returned calcResults | ReturnedUndefined | Thrown error

text \<open>The module-level variables of the content script, and the calls made to the
  rendering and messaging collaborators, in order.\<close>

record State =
  currentSettings :: "rat Settings"
  calculationResults :: "calcResults option"
  isCalculating :: bool
  effects :: "effect list"

definition emit :: "effect \<Rightarrow> State \<Rightarrow> State" where
  "emit e st = st\<lparr> effects := effects st @ [e] \<rparr>"

text \<open>The call of \<^verbatim>\<open>calculateDistribution(orderData, currentSettings)\<close> on the parsed order.\<close>

definition calculateOnParsed :: "RawOrderData \<Rightarrow> rat Settings \<Rightarrow> error + calcResults" where
  "calculateOnParsed orderData settings =
     (case toOrderData orderData of
        None \<Rightarrow> Inr NonFiniteResults
      | Some od \<Rightarrow>
         (case calculateDistribution od settings of
            Inl NonFinite \<Rightarrow> Inr NonFiniteResults
          | Inl e \<Rightarrow> Inl e
          | Inr r \<Rightarrow> Inr (Results r)))"

text \<open>The \<^verbatim>\<open>try\<close> block of \<^verbatim>\<open>calculateAndDisplay\<close>.\<close>

definition calculateAndDisplayTry :: "bool \<Rightarrow> Page \<Rightarrow> State \<Rightarrow> (error + calcResults) \<times> State" where
  "calculateAndDisplayTry fromPopup page st =
     (case (if fromPopup
            then (case showLoadingThrows page of
                    Some e \<Rightarrow> Inl e
                  | None \<Rightarrow> Inr (emit ShowLoadingState st))
            else Inr st) of
        Inl e \<Rightarrow> (Inl e, st)
      | Inr st1 \<Rightarrow>
         (case parseOrderData page of
            Inl e \<Rightarrow> (Inl e, st1)
          | Inr orderData \<Rightarrow>
              if peopleCount orderData = 0 then
                (Inl (Error ''No order data found on this page. Make sure you are on an order confirmation or tracking page.''), st1)
              else
                (case calculateOnParsed orderData (currentSettings st1) of
                   Inl e \<Rightarrow> (Inl e, st1)
                 | Inr results' \<Rightarrow>
                     let st2 = st1\<lparr> calculationResults := Some results' \<rparr>;
                         displayBudget = budgetOf (currentSettings st2)
                     in (case displayResultsThrows page of
                           Some e \<Rightarrow> (Inl e, st2)
                         | None \<Rightarrow>
                             (Inr results',
                              emit (DisplayResults results' fromPopup displayBudget) st2)))))"

text \<open>
  \<^verbatim>\<open>calculateAndDisplay\<close> with its guard, its \<^verbatim>\<open>catch\<close> and its \<^verbatim>\<open>finally\<close>. The function
  holds no \<^verbatim>\<open>await\<close>, so one call runs from its first statement to its last.
\<close>

definition calculateAndDisplay :: "bool \<Rightarrow> Page \<Rightarrow> State \<Rightarrow> outcome \<times> State" where
  "calculateAndDisplay fromPopup page st =
     (if isCalculating st then (Thrown (Error ''Calculation already in progress''), st)
      else
        (case calculateAndDisplayTry fromPopup page (st\<lparr> isCalculating := True \<rparr>) of
           (Inr results', st1) \<Rightarrow> (Returned results', st1\<lparr> isCalculating := False \<rparr>)
         | (Inl e, st1) \<Rightarrow>
             let st2 = emit (SendLogError (messageOf e)) st1
             in if fromPopup then (Thrown e, st2\<lparr> isCalculating := False \<rparr>)
                else (case displayErrorThrows page of
                        Some e' \<Rightarrow> (Thrown e', st2\<lparr> isCalculating := False \<rparr>)
                      | None \<Rightarrow>
                          (ReturnedUndefined,
                           (emit (DisplayError (messageOf e)) st2)\<lparr> isCalculating := False \<rparr>))))"

section \<open>Vocabulary of the statements\<close>

text \<open>
  Names for the values that \<^verbatim>\<open>calculateDistribution\<close> computes on the way: the shared
  costs per person, the unrounded surplus and shortfall of a participant, the entry that
  step 1 stores for a participant, the entry that step 2 derives from it, and the two
  totals. The lemmas below show that the function computes exactly these.
\<close>

definition perPerson :: "rat OrderData \<Rightarrow> rat" where
  "perPerson od = (delivery od + service od + discount od) / of_nat (length (people od))"

definition rawExtra :: "rat \<Rightarrow> rat \<Rightarrow> rat \<Rightarrow> rat" where
  "rawExtra pp budget order' = max 0 (budget - (order' + pp))"

definition rawOver :: "rat \<Rightarrow> rat \<Rightarrow> rat \<Rightarrow> rat" where
  "rawOver pp budget order' = max 0 (order' + pp - budget)"

definition details1 :: "rat \<Rightarrow> rat \<Rightarrow> string option \<Rightarrow> string \<Rightarrow> rat \<Rightarrow> rat ParticipantDetails" where
  "details1 pp budget creator name order' =
     \<lparr> individualOrder = toFixed2 order',
       sharedCosts = toFixed2 pp,
       totalCost = toFixed2 (order' + pp),
       budgetUsage = toFixed2 (min (order' + pp) budget),
       extraBudget = toFixed2 (rawExtra pp budget order'),
       overBudget = toFixed2 (rawOver pp budget order'),
       isOrderCreator = (Some name = creator) \<rparr>"

definition payment2 :: "rat \<Rightarrow> rat \<Rightarrow> rat ParticipantDetails \<Rightarrow> rat FinalPayment" where
  "payment2 E O' details =
     (if overBudget details > 0 then
        ParticipantDetails.extend details
          (FinalPayment.fields
             (toFixed2 (min (overBudget details) (E * (if O' > 0 then overBudget details / O' else 0))))
             (toFixed2 (max 0 (overBudget details - min (overBudget details) (E * (if O' > 0 then overBudget details / O' else 0)))))
             (if max 0 (overBudget details - min (overBudget details) (E * (if O' > 0 then overBudget details / O' else 0))) > 0 then Pays else Covered))
      else
        ParticipantDetails.extend details
          (FinalPayment.fields 0 0 (if extraBudget details > 0 then HelpsOthers else Exact)))"


definition totalExtraOf :: "rat OrderData \<Rightarrow> rat \<Rightarrow> rat" where
  "totalExtraOf od budget = sum_list (map (\<lambda>(n, v). rawExtra (perPerson od) budget v) (people od))"

definition totalOverOf :: "rat OrderData \<Rightarrow> rat \<Rightarrow> rat" where
  "totalOverOf od budget = sum_list (map (\<lambda>(n, v). rawOver (perPerson od) budget v) (people od))"

definition entryOf :: "rat OrderData \<Rightarrow> rat Settings \<Rightarrow> string \<Rightarrow> rat \<Rightarrow> rat FinalPayment" where
  "entryOf od st name order' =
     payment2 (totalExtraOf od (budgetOf st)) (totalOverOf od (budgetOf st))
       (details1 (perPerson od) (budgetOf st) (identifyOrderCreator (map fst (people od))) name order')"





section \<open>The shape of the result of \<^verbatim>\<open>calculateDistribution\<close>\<close>

lemma update_fresh: "k \<notin> fst ` set al \<Longrightarrow> AList.update k v al = al @ [(k, v)]"
  by (induction al) auto

lemma foldl_plus: "foldl (+) a xs = a + sum_list (xs :: rat list)"
  by (induction xs arbitrary: a) (auto simp: algebra_simps)

lemma step1_eq:
  "map_of ppl name = Some v \<Longrightarrow>
   step1 ppl pp b cr name (pd, te, to') =
     Inr (AList.update name (details1 pp b cr name v) pd, te + rawExtra pp b v, to' + rawOver pp b v)"
  by (simp add: step1_def details1_def rawExtra_def rawOver_def Let_def max_def)

lemma forEach_step1:
  "(\<And>n v. (n, v) \<in> set ps \<Longrightarrow> map_of ppl n = Some v) \<Longrightarrow> distinct (map fst ps) \<Longrightarrow>
   fst ` set ps \<inter> fst ` set pd = {} \<Longrightarrow>
   forEach (step1 ppl pp b cr) (map fst ps) (pd, te, to') =
     Inr (pd @ map (\<lambda>(n, v). (n, details1 pp b cr n v)) ps,
          te + sum_list (map (\<lambda>(n, v). rawExtra pp b v) ps),
          to' + sum_list (map (\<lambda>(n, v). rawOver pp b v) ps))"
proof (induction ps arbitrary: pd te to')
  case Nil
  then show ?case by simp
next
  case (Cons p ps)
  obtain n v where p: "p = (n, v)" by (cases p)
  have look: "map_of ppl n = Some v" using Cons.prems(1) p by simp
  have fresh: "n \<notin> fst ` set pd" using Cons.prems(3) p by auto
  have disj: "fst ` set ps \<inter> fst ` set (pd @ [(n, details1 pp b cr n v)]) = {}"
    using Cons.prems(2,3) p by auto
  have "forEach (step1 ppl pp b cr) (map fst (p # ps)) (pd, te, to') =
        forEach (step1 ppl pp b cr) (map fst ps)
          (pd @ [(n, details1 pp b cr n v)], te + rawExtra pp b v, to' + rawOver pp b v)"
    using look fresh by (simp add: p step1_eq update_fresh)
  also have "\<dots> = Inr ((pd @ [(n, details1 pp b cr n v)]) @ map (\<lambda>(n, v). (n, details1 pp b cr n v)) ps,
          (te + rawExtra pp b v) + sum_list (map (\<lambda>(n, v). rawExtra pp b v) ps),
          (to' + rawOver pp b v) + sum_list (map (\<lambda>(n, v). rawOver pp b v) ps))"
    using Cons.prems(1,2) disj by (intro Cons.IH) auto
  finally show ?case by (simp add: p algebra_simps)
qed

lemma step2_eq:
  "map_of pd name = Some d \<Longrightarrow>
   step2 pd E O' name fps = Inr (AList.update name (payment2 E O' d) fps)"
  by (simp add: step2_def payment2_def jsdiv_def Let_def)

lemma forEach_step2:
  "(\<And>n d. (n, d) \<in> set ds \<Longrightarrow> map_of pd n = Some d) \<Longrightarrow> distinct (map fst ds) \<Longrightarrow>
   fst ` set ds \<inter> fst ` set fps = {} \<Longrightarrow>
   forEach (step2 pd E O') (map fst ds) fps =
     Inr (fps @ map (\<lambda>(n, d). (n, payment2 E O' d)) ds)"
proof (induction ds arbitrary: fps)
  case Nil
  then show ?case by simp
next
  case (Cons p ds)
  obtain n d where p: "p = (n, d)" by (cases p)
  have look: "map_of pd n = Some d" using Cons.prems(1) p by simp
  have fresh: "n \<notin> fst ` set fps" using Cons.prems(3) p by auto
  have disj: "fst ` set ds \<inter> fst ` set (fps @ [(n, payment2 E O' d)]) = {}"
    using Cons.prems(2,3) p by auto
  have "forEach (step2 pd E O') (map fst (p # ds)) fps =
        forEach (step2 pd E O') (map fst ds) (fps @ [(n, payment2 E O' d)])"
    using look fresh by (simp add: p step2_eq update_fresh)
  also have "\<dots> = Inr ((fps @ [(n, payment2 E O' d)]) @ map (\<lambda>(n, d). (n, payment2 E O' d)) ds)"
    using Cons.prems(1,2) disj by (intro Cons.IH) auto
  finally show ?case by (simp add: p)
qed


lemma map_fst_pairs: "map fst (map (\<lambda>(n, v). (n, f n v)) ps) = map fst ps"
  by (induction ps) auto

lemma calculateDistribution_closed:
  assumes d: "distinct (map fst (people od))" and ne: "people od \<noteq> []"
  shows "calculateDistribution od st =
     Inr \<lparr> results = map (\<lambda>(n, v). (n, entryOf od st n v)) (people od),
           withinBudget = (sum_list (map snd (people od)) + delivery od + service od + discount od
                             \<le> budgetOf st * of_nat (length (people od))),
           orderCreator = identifyOrderCreator (map fst (people od)),
           breakdown =
             \<lparr> orderSubtotal = sum_list (map snd (people od)),
               b_delivery = delivery od,
               b_service = service od,
               b_discount = discount od,
               grandTotal = sum_list (map snd (people od)) + delivery od + service od + discount od,
               totalBudget = budgetOf st * of_nat (length (people od)),
               sharedCostsTotal = delivery od + service od + discount od,
               sharedCostsPerPerson = perPerson od,
               totalExtraBudget = totalExtraOf od (budgetOf st),
               totalOverBudget = totalOverOf od (budgetOf st),
               participantCount = length (people od) \<rparr> \<rparr>"
proof -
  let ?ppl = "people od"
  let ?pp = "perPerson od"
  let ?b = "budgetOf st"
  let ?cr = "identifyOrderCreator (map fst ?ppl)"
  let ?pd = "map (\<lambda>(n, v). (n, details1 ?pp ?b ?cr n v)) ?ppl"
  have n0: "(of_nat (length ?ppl) :: rat) \<noteq> 0" using ne by simp
  have div: "jsdiv (delivery od + service od + discount od) (of_nat (length ?ppl)) = Inr ?pp"
    using n0 by (simp add: jsdiv_def perPerson_def)
  have look1: "\<And>n v. (n, v) \<in> set ?ppl \<Longrightarrow> map_of ?ppl n = Some v"
    using d by (rule map_of_is_SomeI)
  have s1: "forEach (step1 ?ppl ?pp ?b ?cr) (map fst ?ppl) ([], 0, 0) =
      Inr (?pd, totalExtraOf od ?b, totalOverOf od ?b)"
    using forEach_step1 [of ?ppl ?ppl "[]" ?pp ?b ?cr 0 0] look1 d
    by (simp add: totalExtraOf_def totalOverOf_def)
  have dpd: "distinct (map fst ?pd)" unfolding map_fst_pairs using d .
  have look2: "\<And>n x. (n, x) \<in> set ?pd \<Longrightarrow> map_of ?pd n = Some x"
    using dpd by (rule map_of_is_SomeI)
  have s2: "forEach (step2 ?pd (totalExtraOf od ?b) (totalOverOf od ?b)) (map fst ?ppl) [] =
      Inr (map (\<lambda>(n, v). (n, entryOf od st n v)) ?ppl)"
  proof -
    have "forEach (step2 ?pd (totalExtraOf od ?b) (totalOverOf od ?b)) (map fst ?pd) [] =
      Inr ([] @ map (\<lambda>(n, x). (n, payment2 (totalExtraOf od ?b) (totalOverOf od ?b) x)) ?pd)"
      using look2 dpd by (intro forEach_step2) auto
    moreover have "map (\<lambda>(n, x). (n, payment2 (totalExtraOf od ?b) (totalOverOf od ?b) x)) ?pd =
      map (\<lambda>(n, v). (n, entryOf od st n v)) ?ppl"
      by (simp add: entryOf_def split_def)
    ultimately show ?thesis unfolding map_fst_pairs by simp
  qed
  show ?thesis
    unfolding calculateDistribution_def Let_def
    by (simp add: div s1 s2 foldl_plus)
qed

section \<open>Lemmas\<close>

subsection \<open>The fields of an entry\<close>

lemma payment2_step1_fields:
  "individualOrder (payment2 E O' d) = individualOrder d"
  "sharedCosts (payment2 E O' d) = sharedCosts d"
  "totalCost (payment2 E O' d) = totalCost d"
  "budgetUsage (payment2 E O' d) = budgetUsage d"
  "extraBudget (payment2 E O' d) = extraBudget d"
  "overBudget (payment2 E O' d) = overBudget d"
  "isOrderCreator (payment2 E O' d) = isOrderCreator d"
  by (simp_all add: payment2_def ParticipantDetails.defs FinalPayment.defs)



subsection \<open>The order creator\<close>

lemma startsWith_iff: "startsWith s p \<longleftrightarrow> (\<exists>post. s = p @ post)"
  by (induction s p rule: startsWith.induct) auto

lemma includesStr_iff: "includesStr s p \<longleftrightarrow> (\<exists>pre post. s = pre @ p @ post)"
proof (induction s)
  case Nil
  then show ?case by simp
next
  case (Cons c cs)
  show ?case
  proof
    assume "includesStr (c # cs) p"
    then consider "startsWith (c # cs) p" | "includesStr cs p" by auto
    then show "\<exists>pre post. c # cs = pre @ p @ post"
    proof cases
      case 1
      then obtain post where "c # cs = p @ post" using startsWith_iff by blast
      then have "c # cs = [] @ p @ post" by simp
      then show ?thesis by blast
    next
      case 2
      then obtain pre post where "cs = pre @ p @ post" using Cons.IH by blast
      then have "c # cs = (c # pre) @ p @ post" by simp
      then show ?thesis by blast
    qed
  next
    assume "\<exists>pre post. c # cs = pre @ p @ post"
    then obtain pre post where e: "c # cs = pre @ p @ post" by blast
    show "includesStr (c # cs) p"
    proof (cases pre)
      case Nil
      then have "startsWith (c # cs) p" using e startsWith_iff by auto
      then show ?thesis by simp
    next
      case (Cons a pre')
      then have "cs = pre' @ p @ post" using e by simp
      then have "includesStr cs p" using Cons.IH by blast
      then show ?thesis by simp
    qed
  qed
qed

lemma identifyOrderCreator_find:
  "identifyOrderCreator names =
     List.find (\<lambda>name. \<exists>pattern \<in> set orderCreatorPatterns.
                  \<exists>pre post. toLowerCase name = pre @ pattern @ post) names"
  by (induction names) (auto simp: list_ex_iff includesStr_iff)

lemma filter_eq_distinct: "distinct xs \<Longrightarrow> length (filter (\<lambda>x. x = a) xs) \<le> 1"
  by (induction xs) (auto simp: filter_empty_conv)

subsection \<open>Evaluating the rounding of a fraction\<close>

lemma floor_rat_divide [simp]: "\<lfloor>(numeral a :: rat) / numeral b\<rfloor> = numeral a div numeral b"
  by (metis floor_divide_of_int_eq of_int_numeral)

lemma floor_rat_one_divide [simp]: "\<lfloor>(1 :: rat) / numeral b\<rfloor> = 1 div numeral b"
  by (metis floor_divide_of_int_eq of_int_numeral of_int_1)

lemma content_budget_authoritative:
  "budgetOf \<lparr> dailyBudget = Undefined \<rparr> = 14"
  "budgetOf \<lparr> dailyBudget = Null \<rparr> = 14"
  "budgetOf \<lparr> dailyBudget = Num b \<rparr> = b"
  by (simp_all add: budgetOf_def)

lemma entryOf_isOrderCreator:
  "isOrderCreator (entryOf od st n v) = (Some n = identifyOrderCreator (map fst (people od)))"
  by (simp add: entryOf_def payment2_step1_fields details1_def)

lemma creator_flags_filter:
  "filter (\<lambda>(n, e). isOrderCreator e) (map (\<lambda>(n, v). (n, entryOf od st n v)) ps) =
   map (\<lambda>(n, v). (n, entryOf od st n v))
     (filter (\<lambda>(n, v). Some n = identifyOrderCreator (map fst (people od))) ps)"
  by (induction ps) (auto simp: entryOf_isOrderCreator)

lemma length_filter_key: "distinct (map fst ps) \<Longrightarrow> length (filter (\<lambda>(n, v). Some n = c) ps) \<le> 1"
  by (induction ps) (auto simp: filter_empty_conv image_iff)

subsection \<open>The calculation flag and the collaborators\<close>

lemma try_keeps_flag:
  "isCalculating (snd (calculateAndDisplayTry fromPopup page st)) = isCalculating st"
  by (auto simp: calculateAndDisplayTry_def emit_def Let_def
      split: sum.splits option.splits if_splits)

lemma try_effects_grow:
  "\<exists>new. effects (snd (calculateAndDisplayTry fromPopup page st)) = effects st @ new
     \<and> (case fst (calculateAndDisplayTry fromPopup page st) of
          Inr res \<Rightarrow> new \<noteq> [] | Inl e \<Rightarrow> \<forall>res b budget. DisplayResults res b budget \<notin> set new)"
  by (auto simp: calculateAndDisplayTry_def emit_def Let_def
      split: sum.splits option.splits if_splits)

lemma accepted_call:
  assumes "\<not> isCalculating st"
  shows "\<not> isCalculating (snd (calculateAndDisplay fromPopup page st))"
    and "length (effects (snd (calculateAndDisplay fromPopup page st))) > length (effects st)"
proof -
  let ?t = "calculateAndDisplayTry fromPopup page (st\<lparr> isCalculating := True \<rparr>)"
  obtain res st1 where t: "?t = (res, st1)" by (cases ?t)
  from try_effects_grow [of fromPopup page "st\<lparr> isCalculating := True \<rparr>"]
  obtain new where n0: "effects (snd ?t) = effects (st\<lparr> isCalculating := True \<rparr>) @ new"
      "case fst ?t of Inr r \<Rightarrow> new \<noteq> [] | Inl e \<Rightarrow> \<forall>res b budget. DisplayResults res b budget \<notin> set new"
    by blast
  have new: "effects st1 = effects st @ new" "\<And>r. res = Inr r \<Longrightarrow> new \<noteq> []"
    using n0 t by auto
  show "\<not> isCalculating (snd (calculateAndDisplay fromPopup page st))"
    using assms t by (simp add: calculateAndDisplay_def emit_def Let_def split: sum.splits option.splits)
  show "length (effects (snd (calculateAndDisplay fromPopup page st))) > length (effects st)"
    using assms t new
    by (cases res) (auto simp: calculateAndDisplay_def emit_def Let_def split: option.splits)
qed

subsection \<open>Validation\<close>

lemma amount_ok_iff:
  "\<not> (\<not> typeofNumber a \<or> a = JNaN \<or> jsLess a 0) \<and> \<not> jsGreater a 1000
     \<longleftrightarrow> (\<exists>r. a = JNumber r \<and> 0 \<le> r \<and> r \<le> 1000)"
  by (cases a) (auto simp: typeofNumber_def jsLess_def jsGreater_def)

lemma validateParticipants_error:
  "validateParticipants ppl = Inl e \<Longrightarrow> \<exists>m. e = Error m"
  by (induction ppl rule: validateParticipants.induct) (auto split: if_splits)

lemma validateParticipants_ok:
  "validateParticipants ppl = Inr u \<Longrightarrow>
   \<forall>(n, a) \<in> set ppl. \<exists>r. a = JNumber r \<and> 0 \<le> r \<and> r \<le> 1000"
proof (induction ppl rule: validateParticipants.induct)
  case 1
  then show ?case by simp
next
  case (2 name amount rest)
  from "2.prems" have ok: "\<not> (\<not> typeofNumber amount \<or> amount = JNaN \<or> jsLess amount 0) \<and> \<not> jsGreater amount 1000"
    and rest: "validateParticipants rest = Inr u"
    by (auto split: if_splits)
  from ok have "\<exists>r. amount = JNumber r \<and> 0 \<le> r \<and> r \<le> 1000"
    by (simp only: amount_ok_iff)
  moreover have "\<forall>(n, a) \<in> set rest. \<exists>r. a = JNumber r \<and> 0 \<le> r \<and> r \<le> 1000"
    using "2.IH" "2.prems" rest by (auto split: if_splits)
  ultimately show ?case by simp
qed

lemma validateFees_error: "validateFees fs = Inl e \<Longrightarrow> \<exists>m. e = Error m"
  by (induction fs rule: validateFees.induct) (auto split: if_splits)

lemma validateOrderData_error: "validateOrderData x = Inl e \<Longrightarrow> \<exists>m. e = Error m"
  unfolding validateOrderData_def Let_def
  by (auto split: option.splits if_splits sum.splits
      dest: validateParticipants_error validateFees_error)

lemma validateOrderData_ok:
  "validateOrderData (Some raw) = Inr u \<Longrightarrow>
   \<exists>ppl. r_people raw = Some ppl \<and> ppl \<noteq> [] \<and> length ppl \<le> 50
     \<and> (\<forall>(n, a) \<in> set ppl. \<exists>r. a = JNumber r \<and> 0 \<le> r \<and> r \<le> 1000)"
  unfolding validateOrderData_def Let_def
  by (auto split: option.splits if_splits sum.splits dest!: validateParticipants_ok)

lemma parseOrderData_error: "parseOrderData page = Inl e \<Longrightarrow> \<exists>m. e = Error m"
  by (auto simp: parseOrderData_def split: sum.splits if_splits)

lemma parseOrderData_ok:
  "parseOrderData page = Inr od \<Longrightarrow>
   parsedByStrategies page = Some od \<and> validateOrderData (Some od) = Inr ()"
  by (auto simp: parseOrderData_def parseOrderDataTry_def Let_def
      split: sum.splits if_splits option.splits)

lemma try_failed_parse:
  assumes "parseOrderData page = Inl e"
  shows "\<exists>e'. fst (calculateAndDisplayTry fromPopup page st) = Inl e'"
    and "calculationResults (snd (calculateAndDisplayTry fromPopup page st)) = calculationResults st"
  using assms
  by (auto simp: calculateAndDisplayTry_def emit_def split: option.splits)

lemma rejected_run:
  assumes p: "parseOrderData page = Inl e" and idle: "\<not> isCalculating st"
  shows "case calculateAndDisplay fromPopup page st of
           (out, st') \<Rightarrow>
             (\<forall>res. out \<noteq> Returned res)
             \<and> calculationResults st' = calculationResults st
             \<and> (\<exists>new. effects st' = effects st @ new
                   \<and> (\<exists>m. SendLogError m \<in> set new)
                   \<and> (\<forall>res b budget. DisplayResults res b budget \<notin> set new))"
proof -
  let ?s = "st\<lparr> isCalculating := True \<rparr>"
  let ?t = "calculateAndDisplayTry fromPopup page ?s"
  obtain res st1 where t: "?t = (res, st1)" by (cases ?t)
  from try_failed_parse [OF p, of fromPopup ?s] t
  obtain e' where res: "res = Inl e'" and keep: "calculationResults st1 = calculationResults st"
    by auto
  from try_effects_grow [of fromPopup page ?s] t res
  obtain new where new: "effects st1 = effects st @ new"
      "\<forall>res b budget. DisplayResults res b budget \<notin> set new"
    by auto
  show ?thesis
    using idle t res keep new
    by (auto simp: calculateAndDisplay_def emit_def Let_def split: option.splits)
qed

subsection \<open>Divisions\<close>













subsection \<open>The alternative distribution\<close>



subsection \<open>Rounding to two decimals\<close>

lemma toFixed2_zero [simp]: "toFixed2 0 = 0"
  by (simp add: toFixed2_def)

lemma toFixed2_nonneg: "0 \<le> x \<Longrightarrow> 0 \<le> toFixed2 x"
  by (simp add: toFixed2_def)

lemma toFixed2_mono: "x \<le> y \<Longrightarrow> toFixed2 x \<le> toFixed2 y"
proof -
  assume xy: "x \<le> y"
  have m: "\<And>a b :: rat. a \<le> b \<Longrightarrow> (of_int \<lfloor>a * 100 + 1 / 2\<rfloor> :: rat) \<le> of_int \<lfloor>b * 100 + 1 / 2\<rfloor>"
    by (simp add: floor_mono)
  show ?thesis
  proof (cases "x < 0")
    case True
    note xneg = True
    show ?thesis
    proof (cases "y < 0")
      case True
      have "(of_int \<lfloor>(- y) * 100 + 1 / 2\<rfloor> :: rat) \<le> of_int \<lfloor>(- x) * 100 + 1 / 2\<rfloor>"
        using xy by (intro m) simp
      then show ?thesis using xneg True by (simp add: toFixed2_def divide_right_mono)
    next
      case False
      have a: "(0::rat) \<le> (- x) * 100 + 1 / 2" using xneg by simp
      have "0 \<le> \<lfloor>(- x) * 100 + 1 / 2\<rfloor>" using a by (simp only: zero_le_floor of_int_0)
      then have "(0::rat) \<le> of_int \<lfloor>(- x) * 100 + 1 / 2\<rfloor> / 100" by simp
      then have "toFixed2 x \<le> 0" using xneg by (simp only: toFixed2_def if_True neg_le_0_iff_le)
      moreover have "0 \<le> toFixed2 y" using False by (intro toFixed2_nonneg) simp
      ultimately show ?thesis by simp
    qed
  next
    case False
    then have "\<not> y < 0" using xy by simp
    moreover have "(of_int \<lfloor>x * 100 + 1 / 2\<rfloor> :: rat) \<le> of_int \<lfloor>y * 100 + 1 / 2\<rfloor>"
      using xy by (intro m)
    ultimately show ?thesis using False by (simp add: toFixed2_def divide_right_mono)
  qed
qed


lemma toFixed2_pos: "toFixed2 x > 0 \<Longrightarrow> x > 0"
proof (rule ccontr)
  assume p: "toFixed2 x > 0" and "\<not> x > 0"
  then have "x \<le> 0" by simp
  from toFixed2_mono [OF this] p show False by simp
qed











subsection \<open>Bounds on the reported amounts and their sums\<close>









subsection \<open>Step 2 on the stored entries\<close>

lemmas calc_eval = calculateDistribution_def budgetOf_def jsdiv_def step1_def step2_def
  toFixed2_def Let_def ParticipantDetails.defs FinalPayment.defs
  orderCreatorPatterns_def toLowerCase_def lowerChar_def






section \<open>The claims\<close>

subsection \<open>C1\<close>




subsection \<open>C2\<close>




subsection \<open>C3\<close>




subsection \<open>C4\<close>

text \<open>
  Claim C4. The content script takes a \<open>dailyBudget\<close> of \<^verbatim>\<open>undefined\<close> or \<^verbatim>\<open>null\<close> as 14
  and any number, 0 included, as the budget. The background script's
  \<^verbatim>\<open>calculateOrderDistribution\<close> does not: with \<open>dailyBudget = 0\<close> it computes with 14, so
  a participant who ordered for 10 is charged nothing, where a budget of 0 charges the 10,
  as \<^verbatim>\<open>calculateDistribution\<close> does on the same order.
\<close>

theorem background_zero_budget:
  "budgetOf \<lparr> dailyBudget = Num 0 \<rparr> = 0 \<and>
   backgroundBudgetOf \<lparr> dailyBudget = Num 0 \<rparr> = 14 \<and>
   calculateOrderDistribution
     \<lparr> people = [(''Alice'', 10)], delivery = 0, service = 0, discount = 0 \<rparr>
     \<lparr> dailyBudget = Num 0 \<rparr> =
   Inr \<lparr> o_results = [(''Alice'', 0)],
         o_breakdown = \<lparr> o_orderSubtotal = 10, o_delivery = 0, o_service = 0, o_discount = 0,
                         o_grandTotal = 10, o_totalBudget = 14, extraForOwner = 0,
                         o_participantCount = 1 \<rparr> \<rparr> \<and>
   calculateDistribution
     \<lparr> people = [(''Alice'', 10)], delivery = 0, service = 0, discount = 0 \<rparr>
     \<lparr> dailyBudget = Num 0 \<rparr> =
   Inr \<lparr> results =
           [(''Alice'', \<lparr> individualOrder = 10, sharedCosts = 0, totalCost = 10,
                          budgetUsage = 0, extraBudget = 0, overBudget = 10,
                          isOrderCreator = False, budgetHelpReceived = 0,
                          finalPayment = 10, status = Pays \<rparr>)],
         withinBudget = False, orderCreator = None,
         breakdown = \<lparr> orderSubtotal = 10, b_delivery = 0, b_service = 0, b_discount = 0,
                       grandTotal = 10, totalBudget = 0, sharedCostsTotal = 0,
                       sharedCostsPerPerson = 0, totalExtraBudget = 0, totalOverBudget = 10,
                       participantCount = 1 \<rparr> \<rparr>"
  by (simp add: calc_eval backgroundBudgetOf_def DEFAULT_dailyBudget_def
      calculateOrderDistribution_def overageOf_def)

subsection \<open>C5\<close>



subsection \<open>C6\<close>

text \<open>
  Claim C6. A parsed order whose \<open>people\<close> are empty, or more than 50, or hold an amount
  that is not a finite number between 0 and 1000, fails \<^verbatim>\<open>validateOrderData\<close> with an
  error message; \<^verbatim>\<open>parseOrderData\<close> then throws, and \<^verbatim>\<open>calculateAndDisplay\<close> neither
  returns nor stores nor displays a result: the error is sent to the log and the order is
  not calculated.
\<close>

theorem invalid_order_rejected:
  assumes "r_people raw = Some ppl"
    and "ppl = [] \<or> length ppl > 50
         \<or> (\<exists>(name, amount) \<in> set ppl. \<not> (\<exists>r. amount = JNumber r \<and> 0 \<le> r \<and> r \<le> 1000))"
  shows "(\<exists>msg. validateOrderData (Some raw) = Inl (Error msg))
     \<and> (\<forall>page. parsedByStrategies page = Some raw \<longrightarrow>
           (\<exists>msg. parseOrderData page = Inl (Error msg))
           \<and> (\<forall>fromPopup st. \<not> isCalculating st \<longrightarrow>
                 (case calculateAndDisplay fromPopup page st of
                    (out, st') \<Rightarrow>
                      (\<forall>res. out \<noteq> Returned res)
                      \<and> calculationResults st' = calculationResults st
                      \<and> (\<exists>new. effects st' = effects st @ new
                            \<and> (\<exists>m. SendLogError m \<in> set new)
                            \<and> (\<forall>res b budget. DisplayResults res b budget \<notin> set new)))))"
proof -
  have bad: "\<And>u. validateOrderData (Some raw) \<noteq> Inr u"
  proof
    fix u assume "validateOrderData (Some raw) = Inr u"
    from validateOrderData_ok [OF this] assms(1)
    have "ppl \<noteq> []" "length ppl \<le> 50"
      "\<forall>(n, a) \<in> set ppl. \<exists>r. a = JNumber r \<and> 0 \<le> r \<and> r \<le> 1000"
      by auto
    with assms(2) show False by auto
  qed
  have v: "\<exists>msg. validateOrderData (Some raw) = Inl (Error msg)"
  proof (cases "validateOrderData (Some raw)")
    case (Inl e)
    then show ?thesis using validateOrderData_error [OF Inl] by auto
  next
    case (Inr u)
    then show ?thesis using bad by blast
  qed
  have p: "\<exists>msg. parseOrderData page = Inl (Error msg)"
    if "parsedByStrategies page = Some raw" for page
  proof (cases "parseOrderData page")
    case (Inl e)
    then show ?thesis using parseOrderData_error [OF Inl] by auto
  next
    case (Inr od)
    from parseOrderData_ok [OF Inr] that have "validateOrderData (Some raw) = Inr ()" by simp
    then show ?thesis using bad by blast
  qed
  show ?thesis
  proof (intro conjI allI impI)
    show "\<exists>msg. validateOrderData (Some raw) = Inl (Error msg)" by (rule v)
  next
    fix page :: Page assume "parsedByStrategies page = Some raw"
    then show "\<exists>msg. parseOrderData page = Inl (Error msg)" by (rule p)
  next
    fix page :: Page and fromPopup :: bool and st :: State
    assume ps: "parsedByStrategies page = Some raw" and idle: "\<not> isCalculating st"
    from p [OF ps] obtain msg where "parseOrderData page = Inl (Error msg)" by blast
    from rejected_run [OF this idle]
    show "case calculateAndDisplay fromPopup page st of
            (out, st') \<Rightarrow>
              (\<forall>res. out \<noteq> Returned res)
              \<and> calculationResults st' = calculationResults st
              \<and> (\<exists>new. effects st' = effects st @ new
                    \<and> (\<exists>m. SendLogError m \<in> set new)
                    \<and> (\<forall>res b budget. DisplayResults res b budget \<notin> set new))" .
  qed
qed

theorem invalid_order_rejected_witness:
  "(\<exists>msg. validateOrderData
      (Some \<lparr> r_people = Some [(''Alice'', JNumber 20), (''Bob'', JNumber (-5))],
              r_delivery = JNumber 0, r_service = JNumber 0, r_discount = JNumber 0 \<rparr>)
    = Inl (Error msg))
   \<and> (\<exists>msg. parseOrderData
      \<lparr> onThuisbezorgd = True, hasOrderIndicators = True,
        structuredElements =
          Some \<lparr> r_people = Some [(''Alice'', JNumber 20), (''Bob'', JNumber (-5))],
                 r_delivery = JNumber 0, r_service = JNumber 0, r_discount = JNumber 0 \<rparr>,
        textParse = None, showLoadingThrows = None, displayResultsThrows = None,
        displayErrorThrows = None \<rparr>
    = Inl (Error msg))"
proof -
  let ?raw = "\<lparr> r_people = Some [(''Alice'', JNumber 20), (''Bob'', JNumber (-5))],
              r_delivery = JNumber 0, r_service = JNumber 0, r_discount = JNumber 0 \<rparr>"
  let ?page = "\<lparr> onThuisbezorgd = True, hasOrderIndicators = True,
        structuredElements = Some ?raw,
        textParse = None, showLoadingThrows = None, displayResultsThrows = None,
        displayErrorThrows = None \<rparr>"
  have a: "r_people ?raw = Some [(''Alice'', JNumber 20), (''Bob'', JNumber (-5))]" by simp
  have b: "[(''Alice'', JNumber 20), (''Bob'', JNumber (-5))] = [] \<or>
      length [(''Alice'', JNumber 20), (''Bob'', JNumber (-5))] > 50 \<or>
      (\<exists>(name, amount) \<in> set [(''Alice'', JNumber 20), (''Bob'', JNumber (-5))].
          \<not> (\<exists>r. amount = JNumber r \<and> 0 \<le> r \<and> r \<le> 1000))"
    by simp
  have p: "parsedByStrategies ?page = Some ?raw"
    by (simp add: parsedByStrategies_def peopleCount_def)
  from invalid_order_rejected [OF a b] p show ?thesis by blast
qed

subsection \<open>C7\<close>

text \<open>
  Claim C7. A call of \<^verbatim>\<open>calculateAndDisplay\<close> made while \<open>isCalculating\<close> is set throws
  \<open>Calculation already in progress\<close> and changes nothing. An accepted call sets the flag
  for the whole of its \<^verbatim>\<open>try\<close> block and clears it at the end, whether the calculation
  returned, failed or a rendering call threw; it always calls a collaborator, so it is
  told apart from a rejected one, and the call after it is accepted again.
\<close>

theorem calculation_not_reentrant:
  "(isCalculating st \<longrightarrow>
      calculateAndDisplay fromPopup page st = (Thrown (Error ''Calculation already in progress''), st))
   \<and> isCalculating (snd (calculateAndDisplayTry fromPopup page (st\<lparr> isCalculating := True \<rparr>)))
   \<and> (\<not> isCalculating st \<longrightarrow>
        \<not> isCalculating (snd (calculateAndDisplay fromPopup page st))
        \<and> length (effects (snd (calculateAndDisplay fromPopup page st))) > length (effects st)
        \<and> length (effects (snd (calculateAndDisplay fromPopup' page'
                                   (snd (calculateAndDisplay fromPopup page st)))))
            > length (effects (snd (calculateAndDisplay fromPopup page st))))"
proof (intro conjI impI)
  assume "isCalculating st"
  then show "calculateAndDisplay fromPopup page st =
      (Thrown (Error ''Calculation already in progress''), st)"
    by (simp add: calculateAndDisplay_def)
next
  show "isCalculating (snd (calculateAndDisplayTry fromPopup page (st\<lparr> isCalculating := True \<rparr>)))"
    by (simp add: try_keeps_flag)
next
  assume n: "\<not> isCalculating st"
  show "\<not> isCalculating (snd (calculateAndDisplay fromPopup page st))"
    using n by (rule accepted_call(1))
  show "length (effects (snd (calculateAndDisplay fromPopup page st))) > length (effects st)"
    using n by (rule accepted_call(2))
  show "length (effects (snd (calculateAndDisplay fromPopup' page'
                                   (snd (calculateAndDisplay fromPopup page st)))))
            > length (effects (snd (calculateAndDisplay fromPopup page st)))"
    using accepted_call(1) [OF n] by (rule accepted_call(2))
qed

theorem calculation_not_reentrant_witness:
  "calculateAndDisplay True
     \<lparr> onThuisbezorgd = True, hasOrderIndicators = True,
       structuredElements = Some \<lparr> r_people = Some [(''Alice'', JNumber 20), (''Bob'', JNumber 5)],
                                   r_delivery = JNumber 0, r_service = JNumber 0, r_discount = JNumber 0 \<rparr>,
       textParse = None, showLoadingThrows = None, displayResultsThrows = None,
       displayErrorThrows = None \<rparr>
     \<lparr> currentSettings = \<lparr> dailyBudget = Num 14 \<rparr>, calculationResults = None,
       isCalculating = True, effects = [] \<rparr>
   = (Thrown (Error ''Calculation already in progress''),
      \<lparr> currentSettings = \<lparr> dailyBudget = Num 14 \<rparr>, calculationResults = None,
        isCalculating = True, effects = [] \<rparr>)
   \<and> \<not> isCalculating (snd (calculateAndDisplay True
     \<lparr> onThuisbezorgd = True, hasOrderIndicators = True,
       structuredElements = Some \<lparr> r_people = Some [(''Alice'', JNumber 20), (''Bob'', JNumber 5)],
                                   r_delivery = JNumber 0, r_service = JNumber 0, r_discount = JNumber 0 \<rparr>,
       textParse = None, showLoadingThrows = None, displayResultsThrows = None,
       displayErrorThrows = None \<rparr>
     \<lparr> currentSettings = \<lparr> dailyBudget = Num 14 \<rparr>, calculationResults = None,
       isCalculating = False, effects = [] \<rparr>))"
  using calculation_not_reentrant
      [of "\<lparr> currentSettings = \<lparr> dailyBudget = Num 14 \<rparr>, calculationResults = None,
             isCalculating = True, effects = [] \<rparr>" True
          "\<lparr> onThuisbezorgd = True, hasOrderIndicators = True,
       structuredElements = Some \<lparr> r_people = Some [(''Alice'', JNumber 20), (''Bob'', JNumber 5)],
                                   r_delivery = JNumber 0, r_service = JNumber 0, r_discount = JNumber 0 \<rparr>,
       textParse = None, showLoadingThrows = None, displayResultsThrows = None,
       displayErrorThrows = None \<rparr>"]
    calculation_not_reentrant
      [of "\<lparr> currentSettings = \<lparr> dailyBudget = Num 14 \<rparr>, calculationResults = None,
             isCalculating = False, effects = [] \<rparr>" True
          "\<lparr> onThuisbezorgd = True, hasOrderIndicators = True,
       structuredElements = Some \<lparr> r_people = Some [(''Alice'', JNumber 20), (''Bob'', JNumber 5)],
                                   r_delivery = JNumber 0, r_service = JNumber 0, r_discount = JNumber 0 \<rparr>,
       textParse = None, showLoadingThrows = None, displayResultsThrows = None,
       displayErrorThrows = None \<rparr>"]
  by simp

subsection \<open>C8\<close>




subsection \<open>C9\<close>

text \<open>
  Claim C9. \<^verbatim>\<open>calculateDistribution\<close> reports as \<open>orderCreator\<close> the first name, in the
  order of enumeration, whose lower-cased form contains one of \<open>you\<close>, \<open>yu\<close>, \<open>me\<close>,
  \<open>myself\<close>, and none when no name does; an entry is flagged \<open>isOrderCreator\<close> exactly when
  its name is that creator, so at most one entry is flagged. \<open>You\<close> is found in every
  arrangement of \<open>You\<close>, \<open>Bob\<close>, \<open>Carol\<close>, and \<open>Alice\<close>, \<open>Bob\<close> have no creator.
\<close>

theorem order_creator_detection:
  assumes "distinct (map fst (people od))" and "people od \<noteq> []"
  shows "\<exists>r. calculateDistribution od st = Inr r
           \<and> orderCreator r = identifyOrderCreator (map fst (people od))
           \<and> orderCreator r =
               List.find (\<lambda>name. \<exists>pattern \<in> set [''you'', ''yu'', ''me'', ''myself''].
                            \<exists>pre post. toLowerCase name = pre @ pattern @ post)
                 (map fst (people od))
           \<and> (\<forall>(name, entry) \<in> set (results r). isOrderCreator entry \<longleftrightarrow> orderCreator r = Some name)
           \<and> length (filter (\<lambda>(name, entry). isOrderCreator entry) (results r)) \<le> 1
           \<and> (\<forall>names \<in> set [[''You'', ''Bob'', ''Carol''], [''You'', ''Carol'', ''Bob''],
                               [''Bob'', ''You'', ''Carol''], [''Carol'', ''You'', ''Bob''],
                               [''Bob'', ''Carol'', ''You''], [''Carol'', ''Bob'', ''You'']].
                  identifyOrderCreator names = Some ''You'')
           \<and> identifyOrderCreator [''Alice'', ''Bob''] = None"
proof -
  let ?cr = "identifyOrderCreator (map fst (people od))"
  let ?rs = "map (\<lambda>(n, v). (n, entryOf od st n v)) (people od)"
  have f: "?cr = List.find (\<lambda>name. \<exists>pattern \<in> set [''you'', ''yu'', ''me'', ''myself''].
                            \<exists>pre post. toLowerCase name = pre @ pattern @ post)
                 (map fst (people od))"
    using identifyOrderCreator_find [of "map fst (people od)"]
    by (simp only: orderCreatorPatterns_def)
  have flags: "\<forall>(name, entry) \<in> set ?rs. isOrderCreator entry \<longleftrightarrow> ?cr = Some name"
    by (auto simp: entryOf_isOrderCreator)
  have one: "length (filter (\<lambda>(name, entry). isOrderCreator entry) ?rs) \<le> 1"
    unfolding creator_flags_filter length_map
    using assms(1) by (rule length_filter_key)
  have perms: "\<forall>names \<in> set [[''You'', ''Bob'', ''Carol''], [''You'', ''Carol'', ''Bob''],
                               [''Bob'', ''You'', ''Carol''], [''Carol'', ''You'', ''Bob''],
                               [''Bob'', ''Carol'', ''You''], [''Carol'', ''Bob'', ''You'']].
                  identifyOrderCreator names = Some ''You''"
    by (simp add: orderCreatorPatterns_def toLowerCase_def lowerChar_def)
  have none: "identifyOrderCreator [''Alice'', ''Bob''] = None"
    by (simp add: orderCreatorPatterns_def toLowerCase_def lowerChar_def)
  show ?thesis
    unfolding calculateDistribution_closed [OF assms]
    apply (intro exI conjI)
          apply (rule refl)
         apply simp
        apply (simp only: DistributionResult.simps)
        apply (rule f)
       apply (simp only: DistributionResult.simps)
       apply (rule flags)
      apply (simp only: DistributionResult.simps)
      apply (rule one)
     apply (rule perms)
    apply (rule none)
    done
qed

theorem order_creator_detection_witness:
  "\<exists>r. calculateDistribution
          \<lparr> people = [(''Bob'', 20), (''James'', 5), (''You'', 7)], delivery = 0, service = 0, discount = 0 \<rparr>
          \<lparr> dailyBudget = Num 14 \<rparr> = Inr r
       \<and> orderCreator r = Some ''James''
       \<and> length (filter (\<lambda>(name, entry). isOrderCreator entry) (results r)) \<le> 1"
proof -
  let ?od = "\<lparr> people = [(''Bob'', 20), (''James'', 5), (''You'', 7)], delivery = 0, service = 0, discount = 0 \<rparr> :: rat OrderData"
  have d: "distinct (map fst (people ?od))" by simp
  have ne: "people ?od \<noteq> []" by simp
  from order_creator_detection [OF d ne, of "\<lparr> dailyBudget = Num 14 \<rparr>"]
  obtain r where r: "calculateDistribution ?od \<lparr> dailyBudget = Num 14 \<rparr> = Inr r"
      "orderCreator r = identifyOrderCreator (map fst (people ?od))"
      "length (filter (\<lambda>(name, entry). isOrderCreator entry) (results r)) \<le> 1"
    by blast
  have "identifyOrderCreator (map fst (people ?od)) = Some ''James''"
    by (simp add: orderCreatorPatterns_def toLowerCase_def lowerChar_def)
  then show ?thesis using r by (intro exI [of _ r]) simp
qed

subsection \<open>C10\<close>

text \<open>
  Claim C10. For an order with at least one participant, the \<open>results\<close> of
  \<^verbatim>\<open>calculateDistribution\<close> have exactly the keys of \<open>people\<close>, in the same order: one
  entry for each participant, none dropped, none added. Every entry is a
  \<^typ>\<open>rat FinalPayment\<close>, the record of the ten fields \<open>individualOrder\<close>, \<open>sharedCosts\<close>,
  \<open>totalCost\<close>, \<open>budgetUsage\<close>, \<open>extraBudget\<close>, \<open>overBudget\<close>, \<open>isOrderCreator\<close>,
  \<open>budgetHelpReceived\<close>, \<open>finalPayment\<close> and \<open>status\<close>.
\<close>

theorem results_cover_participants:
  assumes "distinct (map fst (people od))" and "people od \<noteq> []"
  shows "\<exists>r. calculateDistribution od st = Inr r
           \<and> map fst (results r) = map fst (people od)
           \<and> fst ` set (results r) = fst ` set (people od)
           \<and> length (results r) = length (people od)
           \<and> distinct (map fst (results r))
           \<and> (\<forall>name \<in> fst ` set (people od). \<exists>entry. map_of (results r) name = Some entry)"
proof -
  let ?r = "map (\<lambda>(n, v). (n, entryOf od st n v)) (people od)"
  have k: "map fst ?r = map fst (people od)" by (rule map_fst_pairs)
  have s: "fst ` set ?r = fst ` set (people od)"
    using k by (metis list.set_map)
  have dr: "distinct (map fst ?r)" unfolding k using assms(1) .
  have l: "\<forall>name \<in> fst ` set (people od). \<exists>entry. map_of ?r name = Some entry"
  proof
    fix name assume "name \<in> fst ` set (people od)"
    then have "name \<in> fst ` set ?r" using s by simp
    then have "map_of ?r name \<noteq> None" by (simp only: map_of_eq_None_iff not_not)
    then show "\<exists>entry. map_of ?r name = Some entry" by auto
  qed
  show ?thesis
    unfolding calculateDistribution_closed [OF assms]
    using k s dr l by simp
qed

theorem results_cover_participants_witness:
  "\<exists>r. calculateDistribution
          \<lparr> people = [(''Alice'', 20), (''Bob'', 5)], delivery = 0, service = 0, discount = 0 \<rparr>
          \<lparr> dailyBudget = Num 14 \<rparr> = Inr r
       \<and> map fst (results r) = [''Alice'', ''Bob'']
       \<and> length (results r) = 2"
proof -
  let ?od = "\<lparr> people = [(''Alice'', 20), (''Bob'', 5)], delivery = 0, service = 0, discount = 0 \<rparr> :: rat OrderData"
  have d: "distinct (map fst (people ?od))" by simp
  have ne: "people ?od \<noteq> []" by simp
  from results_cover_participants [OF d ne, of "\<lparr> dailyBudget = Num 14 \<rparr>"]
  obtain r where r: "calculateDistribution ?od \<lparr> dailyBudget = Num 14 \<rparr> = Inr r"
      "map fst (results r) = map fst (people ?od)" "length (results r) = length (people ?od)"
    by blast
  show ?thesis using r by (intro exI [of _ r]) simp
qed

end
